theory Spec2Isabelle
  imports Main
begin

section \<open>JavaScript values, objects and the store\<close>

text \<open>
  The module \<open>packages/@ember/-internals/glimmer/lib/helper.ts\<close> manipulates
  untyped JavaScript values: the object a factory produces is inspected with
  \<open>typeof\<close>, arguments are read as properties of an object that is shared with
  the rendering engine, and helper instances carry a tag under a symbol key. The model
  therefore keeps an explicit store. Objects live in the store and are referred to by
  address, so that two references to one object alias, as they do in JavaScript.

  Numbers are modelled as integers (the scenarios of the specification compute with
  small integers only; floating point is outside this development).
\<close>

type_synonym addr = nat

datatype jsval =
    JSUndefined
  | JSNull
  | JSBoolean bool
  | JSNumber int
  | JSString string
  | JSObject addr

text \<open>
  Property keys are strings, array indices, or one of the two symbols the module uses:
  \<open>RECOMPUTE_TAG\<close> (line 17) and the key under which \<open>setOwner\<close> stores the owner.
\<close>

datatype key = Name string | Index nat | RECOMPUTE_TAG | OWNER

text \<open>
  What a callable object runs when it is called. User code (the \<open>compute\<close> of a
  helper, the \<open>create\<close> of a factory, a function given to \<open>helper\<close>) is referred to by
  an identifier and interpreted by a code table; three methods defined in this module
  are reachable as values too, and so is the built-in \<open>Function.prototype.call\<close>, which
  the thunk of line 276 looks up on the function it calls.
\<close>

type_synonym fid = nat

datatype callee =
    UserFn fid
  | Helper_init_method
  | Helper_recompute_method
  | Wrapper_create_method
  | Function_call_method

text \<open>
  An object is the map from keys to values that property lookup sees (own and inherited
  data properties; accessors and proxies are not modelled), and, for a function, what it
  runs. A key that is present with value \<open>undefined\<close> differs from an absent key: the
  \<open>in\<close> operator tells them apart. An ordinary function has the key \<open>call\<close>, inherited
  from \<open>Function.prototype\<close>; a function may shadow it with a property of its own.
\<close>

record jsobj =
  props :: "key \<rightharpoonup> jsval"
  callable :: "callee option"

datatype jserror =
    TypeError
  | AssertionError string
  | Thrown jsval

text \<open>
  The closure \<open>() => dirtyTag(this[RECOMPUTE_TAG])\<close> of line 168: it captures \<open>this\<close>
  and reads the tag when it runs.
\<close>

datatype action = DirtyRecomputeTagOf jsval

text \<open>Calls of the tag primitives, in the order they happen.\<close>

datatype event = Consumed jsval | Dirtied addr

record world =
  heap :: "addr \<Rightarrow> jsobj"
  next_addr :: addr
  revision :: nat
  queue :: "action list"
  trace :: "event list"

type_synonym 'a result = "(jserror + 'a) \<times> world"

text \<open>
  The code table: what a user function does when called with a receiver and arguments.
  It returns a value or throws, and may change the world. (A user function that does not
  terminate is not modelled.)
\<close>

type_synonym code = "fid \<Rightarrow> jsval \<Rightarrow> jsval list \<Rightarrow> world \<Rightarrow> jsval result"

definition empty_object :: jsobj where
  "empty_object = \<lparr> props = Map.empty, callable = None \<rparr>"

definition alloc :: "jsobj \<Rightarrow> world \<Rightarrow> addr \<times> world" where
  "alloc obj w =
     (next_addr w, w\<lparr> heap := (heap w)(next_addr w := obj), next_addr := Suc (next_addr w) \<rparr>)"

text \<open>
  Reading a property: a \<open>TypeError\<close> on \<open>null\<close> and \<open>undefined\<close>, \<open>undefined\<close> for a
  key that is absent, and for the keys of this module on a primitive.
\<close>

definition get_prop :: "world \<Rightarrow> jsval \<Rightarrow> key \<Rightarrow> jserror + jsval" where
  "get_prop w v k =
     (case v of
        JSUndefined \<Rightarrow> Inl TypeError
      | JSNull \<Rightarrow> Inl TypeError
      | JSObject a \<Rightarrow>
          Inr (case props (heap w a) k of None \<Rightarrow> JSUndefined | Some x \<Rightarrow> x)
      | _ \<Rightarrow> Inr JSUndefined)"

text \<open>Assigning a property, in strict mode: a \<open>TypeError\<close> on anything but an object.\<close>

definition set_prop :: "jsval \<Rightarrow> key \<Rightarrow> jsval \<Rightarrow> world \<Rightarrow> unit result" where
  "set_prop v k x w =
     (case v of
        JSObject a \<Rightarrow>
          (Inr (),
           w\<lparr> heap := (heap w)(a := (heap w a)\<lparr> props := (props (heap w a))(k \<mapsto> x) \<rparr>) \<rparr>)
      | _ \<Rightarrow> (Inl TypeError, w))"

text \<open>The operator \<open>k in v\<close>: a \<open>TypeError\<close> when \<open>v\<close> is not an object.\<close>

definition has_prop :: "world \<Rightarrow> key \<Rightarrow> jsval \<Rightarrow> jserror + bool" where
  "has_prop w k v =
     (case v of
        JSObject a \<Rightarrow> Inr (props (heap w a) k \<noteq> None)
      | _ \<Rightarrow> Inl TypeError)"

definition typeof :: "world \<Rightarrow> jsval \<Rightarrow> string" where
  "typeof w v =
     (case v of
        JSUndefined \<Rightarrow> ''undefined''
      | JSNull \<Rightarrow> ''object''
      | JSBoolean _ \<Rightarrow> ''boolean''
      | JSNumber _ \<Rightarrow> ''number''
      | JSString _ \<Rightarrow> ''string''
      | JSObject a \<Rightarrow> (if callable (heap w a) = None then ''object'' else ''function''))"

definition truthy :: "jsval \<Rightarrow> bool" where
  "truthy v =
     (case v of
        JSUndefined \<Rightarrow> False
      | JSNull \<Rightarrow> False
      | JSBoolean b \<Rightarrow> b
      | JSNumber n \<Rightarrow> n \<noteq> 0
      | JSString s \<Rightarrow> s \<noteq> []
      | JSObject _ \<Rightarrow> True)"

section \<open>The collaborators the module imports\<close>

text \<open>
  Modelled from the spec: \<open>assert\<close> of \<open>@ember/debug\<close> is not among the sources. The
  specification calls a failed check of \<open>createHelper\<close> a fatal assertion, a
  contract-violation error surfaced at once: a falsy test throws an error carrying the
  description, a truthy one does nothing.
\<close>

definition assert :: "string \<Rightarrow> bool \<Rightarrow> jserror + unit" where
  "assert desc test = (if test then Inr () else Inl (AssertionError desc))"

text \<open>
  Modelled from the spec: the tag primitives of \<open>@glimmer/validator\<close> are not among the
  sources. The specification gives \<open>createTag() -> Tag\<close>, \<open>dirtyTag(tag)\<close> (mark
  dirty) and \<open>consumeTag(tag)\<close> (record a read), the tag being an opaque token owned by
  its instance. A tag is a new object of the store holding the revision at which it was
  last dirtied; dirtying advances the global revision clock and stamps the tag with it;
  consuming records the read.
\<close>

definition createTag :: "world \<Rightarrow> jsval \<times> world" where
  "createTag w =
     (let (a, w') = alloc \<lparr> props = [Name ''revision'' \<mapsto> JSNumber 1], callable = None \<rparr> w
      in (JSObject a, w'))"

definition dirtyTag :: "jsval \<Rightarrow> world \<Rightarrow> unit result" where
  "dirtyTag t w =
     (case t of
        JSObject a \<Rightarrow>
          (let r = Suc (revision w) in
           (Inr (),
            w\<lparr> heap := (heap w)(a := (heap w a)\<lparr> props :=
                   (props (heap w a))(Name ''revision'' \<mapsto> JSNumber (int r)) \<rparr>),
               revision := r,
               trace := trace w @ [Dirtied a] \<rparr>))
      | _ \<Rightarrow> (Inl TypeError, w))"

definition consumeTag :: "jsval \<Rightarrow> world \<Rightarrow> world" where
  "consumeTag t w = w\<lparr> trace := trace w @ [Consumed t] \<rparr>"

text \<open>
  Modelled from the spec: \<open>setOwner\<close> of \<open>@ember/-internals/owner\<close> is not among the
  sources. The specification describes the injected environment as a record with an
  owner back-reference, built by \<open>attachOwner(target, owner)\<close>.
\<close>

definition setOwner :: "jsval \<Rightarrow> jsval \<Rightarrow> world \<Rightarrow> unit result" where
  "setOwner object owner w = set_prop object OWNER owner w"

text \<open>
  Modelled from the spec: \<open>join\<close> of \<open>@ember/runloop\<close> is not among the sources. The
  specification says that the action is not executed synchronously: it is enqueued
  into the host's batching scheduler, which coalesces and flushes at the end of the
  current run-loop turn, entries for the same tag (here: the closures of one instance)
  being deduplicated. An action that throws ends the flush.
\<close>

definition join :: "action \<Rightarrow> world \<Rightarrow> world" where
  "join act w = w\<lparr> queue := queue w @ [act] \<rparr>"

definition run_action :: "action \<Rightarrow> world \<Rightarrow> unit result" where
  "run_action act w =
     (case act of
        DirtyRecomputeTagOf this \<Rightarrow>
          (case get_prop w this RECOMPUTE_TAG of
             Inl e \<Rightarrow> (Inl e, w)
           | Inr t \<Rightarrow> dirtyTag t w))"

fun run_actions :: "action list \<Rightarrow> world \<Rightarrow> unit result" where
  "run_actions [] w = (Inr (), w)"
| "run_actions (act # acts) w =
     (case run_action act w of
        (Inl e, w') \<Rightarrow> (Inl e, w')
      | (Inr _, w') \<Rightarrow> run_actions acts w')"

definition flush :: "world \<Rightarrow> unit result" where
  "flush w = run_actions (remdups (queue w)) (w\<lparr> queue := [] \<rparr>)"

section \<open>The class \<open>Helper\<close> (lines 112 to 170)\<close>

text \<open>
  \<open>init\<close> (line 131). The base class's \<open>init\<close> belongs to the object model, an external
  collaborator of this module, and has no effect on the state modelled here.
\<close>

definition Helper_init :: "jsval \<Rightarrow> jsval \<Rightarrow> world \<Rightarrow> unit result" where
  "Helper_init this properties w =
     (let (t, w1) = createTag w in
      case set_prop this RECOMPUTE_TAG t w1 of
        (Inl e, w2) \<Rightarrow> (Inl e, w2)
      | (Inr _, w2) \<Rightarrow>
          (case get_prop w2 this (Name ''compute'') of
             Inl e \<Rightarrow> (Inl e, w2)
           | Inr c \<Rightarrow>
               (case assert ''expected compute to be defined'' (truthy c) of
                  Inl e \<Rightarrow> (Inl e, w2)
                | Inr _ \<Rightarrow> (Inr (), w2))))"

text \<open>\<open>recompute\<close> (line 167).\<close>

definition Helper_recompute :: "jsval \<Rightarrow> world \<Rightarrow> unit result" where
  "Helper_recompute this w = (Inr (), join (DirtyRecomputeTagOf this) w)"

text \<open>
  Modelled from the spec: \<open>destroy\<close> comes from the base class of the object model, which
  is not among the sources. The specification gives a helper instance the terminal state
  Destroyed, entered when \<open>destroy()\<close> is invoked on it, and says nothing else of its
  effect: the instance is marked as destroyed.
\<close>

definition Helper_destroy :: "jsval \<Rightarrow> world \<Rightarrow> unit result" where
  "Helper_destroy this w = set_prop this (Name ''isDestroyed'') (JSBoolean True) w"

section \<open>The class \<open>Wrapper\<close> and \<open>helper\<close> (lines 257 to 268, 360 to 364)\<close>

definition Wrapper_create :: "jsval \<Rightarrow> world \<Rightarrow> jsval result" where
  "Wrapper_create this w =
     (case get_prop w this (Name ''compute'') of
        Inl e \<Rightarrow> (Inl e, w)
      | Inr c \<Rightarrow>
          (let (a, w') = alloc \<lparr> props = [Name ''compute'' \<mapsto> c], callable = None \<rparr> w
           in (Inr (JSObject a), w')))"

text \<open>
  \<open>new Wrapper(helperFn)\<close>: the new object has the fields \<open>isHelperFactory\<close> and
  \<open>compute\<close>, and \<open>create\<close> from its prototype. The function object of the method
  \<open>create\<close> is shared by all wrappers; its address is given.
\<close>

definition helper :: "addr \<Rightarrow> jsval \<Rightarrow> world \<Rightarrow> jsval \<times> world" where
  "helper create_method helperFn w =
     (let (a, w') = alloc \<lparr> props = [Name ''isHelperFactory'' \<mapsto> JSBoolean True,
                                     Name ''compute'' \<mapsto> helperFn,
                                     Name ''create'' \<mapsto> JSObject create_method],
                            callable = None \<rparr> w
      in (JSObject a, w'))"

section \<open>Calling a function value\<close>

text \<open>
  Calling \<open>f\<close> with a receiver and arguments. \<open>Function.prototype.call\<close> calls its own
  receiver, with its first argument as the receiver and the others as the arguments; each
  such step uses up an argument, or ends at a receiver that is no object.
\<close>

function invoke :: "code \<Rightarrow> jsval \<Rightarrow> jsval \<Rightarrow> jsval list \<Rightarrow> world \<Rightarrow> jsval result" where
  "invoke \<Gamma> f this args w =
     (case f of
        JSObject a \<Rightarrow>
          (case callable (heap w a) of
             None \<Rightarrow> (Inl TypeError, w)
           | Some (UserFn i) \<Rightarrow> \<Gamma> i this args w
           | Some Helper_init_method \<Rightarrow>
               (case Helper_init this (case args of [] \<Rightarrow> JSUndefined | p # _ \<Rightarrow> p) w of
                  (Inl e, w') \<Rightarrow> (Inl e, w')
                | (Inr _, w') \<Rightarrow> (Inr JSUndefined, w'))
           | Some Helper_recompute_method \<Rightarrow>
               (case Helper_recompute this w of
                  (Inl e, w') \<Rightarrow> (Inl e, w')
                | (Inr _, w') \<Rightarrow> (Inr JSUndefined, w'))
           | Some Wrapper_create_method \<Rightarrow> Wrapper_create this w
           | Some Function_call_method \<Rightarrow>
               (case this of
                  JSObject _ \<Rightarrow>
                    invoke \<Gamma> this (case args of [] \<Rightarrow> JSUndefined | t # _ \<Rightarrow> t) (tl args) w
                | _ \<Rightarrow> (Inl TypeError, w)))
      | _ \<Rightarrow> (Inl TypeError, w))"
  by pat_completeness auto
termination
  by (relation "measure (\<lambda>(\<Gamma>, f, this, args, w).
        2 * length args + (case this of JSObject _ \<Rightarrow> 1 | _ \<Rightarrow> 0))")
    (auto split: jsval.splits list.splits)

declare invoke.simps [simp del]

text \<open>The method call \<open>obj.k(args)\<close>: the receiver is \<open>obj\<close>.\<close>

definition call_method :: "code \<Rightarrow> jsval \<Rightarrow> key \<Rightarrow> jsval list \<Rightarrow> world \<Rightarrow> jsval result" where
  "call_method \<Gamma> obj k args w =
     (case get_prop w obj k of
        Inl e \<Rightarrow> (Inl e, w)
      | Inr f \<Rightarrow> invoke \<Gamma> f obj args w)"

section \<open>\<open>ClassicHelperManager\<close> (lines 187 to 247)\<close>

text \<open>
  Modelled from the spec: \<open>helperCapabilities\<close> of \<open>@glimmer/manager\<close> is not among the
  sources. The specification describes the descriptor as
  \<open>{ version, hasValue, hasDestroyable }\<close>, built from a protocol version and a map of
  optional-feature flags; construction fails when the version is not a recognised
  revision. A flag the options do not declare is off.
\<close>

record HelperCapabilities =
  version :: string
  hasValue :: bool
  hasDestroyable :: bool

definition helperCapabilities :: "string \<Rightarrow> (string \<rightharpoonup> bool) \<Rightarrow> jserror + HelperCapabilities" where
  "helperCapabilities managerAPI options =
     (case assert ''Invalid helper manager compatibility specified'' (managerAPI = ''3.23'') of
        Inl e \<Rightarrow> Inl e
      | Inr _ \<Rightarrow>
          Inr \<lparr> version = managerAPI,
                hasValue = (options ''hasValue'' = Some True),
                hasDestroyable = (options ''hasDestroyable'' = Some True) \<rparr>)"

record ClassicHelperStateBucket =
  bucket_instance :: jsval
  bucket_args :: jsval

record ClassicHelperManager =
  ownerInjection :: jsval

definition ClassicHelperManager_capabilities :: "jserror + HelperCapabilities" where
  "ClassicHelperManager_capabilities =
     helperCapabilities ''3.23'' [''hasValue'' \<mapsto> True, ''hasDestroyable'' \<mapsto> True]"

text \<open>The constructor (line 195).\<close>

definition ClassicHelperManager_new :: "jsval \<Rightarrow> world \<Rightarrow> ClassicHelperManager result" where
  "ClassicHelperManager_new owner w =
     (let (a, w1) = alloc empty_object w in
      case setOwner (JSObject a) owner w1 of
        (Inl e, w2) \<Rightarrow> (Inl e, w2)
      | (Inr _, w2) \<Rightarrow> (Inr \<lparr> ownerInjection = JSObject a \<rparr>, w2))"

text \<open>\<open>isFactoryManager\<close> (line 245): \<open>obj != null\<close> is false for \<open>null\<close> and \<open>undefined\<close>.\<close>

definition isFactoryManager :: "world \<Rightarrow> jsval \<Rightarrow> jserror + bool" where
  "isFactoryManager w obj =
     (if obj = JSNull \<or> obj = JSUndefined then Inr False
      else has_prop w (Name ''class'') obj)"

text \<open>The type guard of lines 211 to 217.\<close>

definition isHelperInstance :: "world \<Rightarrow> jsval \<Rightarrow> jserror + bool" where
  "isHelperInstance w inst =
     (if inst \<noteq> JSNull \<and> typeof w inst = ''object'' then
        (case get_prop w inst (Name ''compute'') of
           Inl e \<Rightarrow> Inl e
         | Inr c \<Rightarrow>
             (if typeof w c = ''function'' then
                (case get_prop w inst (Name ''destroy'') of
                   Inl e \<Rightarrow> Inl e
                 | Inr d \<Rightarrow> Inr (typeof w d = ''function''))
              else Inr False))
      else Inr False)"

text \<open>\<open>createHelper\<close> (line 201).\<close>

definition createHelper ::
  "code \<Rightarrow> ClassicHelperManager \<Rightarrow> jsval \<Rightarrow> jsval \<Rightarrow> world \<Rightarrow> ClassicHelperStateBucket result"
where
  "createHelper \<Gamma> this definition args0 w =
     (case isFactoryManager w definition of
        Inl e \<Rightarrow> (Inl e, w)
      | Inr fm \<Rightarrow>
          (case (if fm then call_method \<Gamma> definition (Name ''create'') [] w
                 else call_method \<Gamma> definition (Name ''create'') [ownerInjection this] w) of
             (Inl e, w1) \<Rightarrow> (Inl e, w1)
           | (Inr inst, w1) \<Rightarrow>
               (case isHelperInstance w1 inst of
                  Inl e \<Rightarrow> (Inl e, w1)
                | Inr ok \<Rightarrow>
                    (case assert ''expected HelperInstance'' ok of
                       Inl e \<Rightarrow> (Inl e, w1)
                     | Inr _ \<Rightarrow> (Inr \<lparr> bucket_instance = inst, bucket_args = args0 \<rparr>, w1)))))"

text \<open>\<open>getDestroyable\<close> (line 226).\<close>

definition getDestroyable :: "ClassicHelperStateBucket \<Rightarrow> jsval" where
  "getDestroyable bucket = bucket_instance bucket"

text \<open>\<open>getValue\<close> (line 230).\<close>

definition getValue :: "code \<Rightarrow> ClassicHelperStateBucket \<Rightarrow> world \<Rightarrow> jsval result" where
  "getValue \<Gamma> bucket w =
     (case get_prop w (bucket_args bucket) (Name ''positional'') of
        Inl e \<Rightarrow> (Inl e, w)
      | Inr positional \<Rightarrow>
          (case get_prop w (bucket_args bucket) (Name ''named'') of
             Inl e \<Rightarrow> (Inl e, w)
           | Inr named \<Rightarrow>
               (case call_method \<Gamma> (bucket_instance bucket) (Name ''compute'') [positional, named] w of
                  (Inl e, w1) \<Rightarrow> (Inl e, w1)
                | (Inr ret, w1) \<Rightarrow>
                    (case get_prop w1 (bucket_instance bucket) RECOMPUTE_TAG of
                       Inl e \<Rightarrow> (Inl e, w1)
                     | Inr t \<Rightarrow> (Inr ret, consumeTag t w1)))))"

text \<open>
  \<open>getDebugName\<close> (line 240). The utility \<open>getDebugName\<close> of \<open>@ember/-internals/utils\<close> is
  not among the sources, and the source calls it through a non-null assertion
  (\<open>getDebugName!\<close>): the binding may be \<open>undefined\<close>. It is a parameter of the model:
  either absent, or a function that returns a string or throws, and may change the world.
  Calling the absent utility is a \<open>TypeError\<close>.
\<close>

type_synonym debug_name_utility = "(world \<Rightarrow> jsval \<Rightarrow> string result) option"

definition ClassicHelperManager_getDebugName ::
  "debug_name_utility \<Rightarrow> world \<Rightarrow> jsval \<Rightarrow> string result"
where
  "ClassicHelperManager_getDebugName utility w definition =
     (case get_prop w definition (Name ''class'') of
        Inl e \<Rightarrow> (Inl e, w)
      | Inr c \<Rightarrow>
          (case get_prop w (if truthy c then c else definition) (Name ''prototype'') of
             Inl e \<Rightarrow> (Inl e, w)
           | Inr p \<Rightarrow>
               (case utility of
                  None \<Rightarrow> (Inl TypeError, w)
                | Some name_of \<Rightarrow> name_of w p)))"

section \<open>\<open>SimpleClassicHelperManager\<close> (lines 270 to 286)\<close>

definition SimpleClassicHelperManager_capabilities :: "jserror + HelperCapabilities" where
  "SimpleClassicHelperManager_capabilities =
     helperCapabilities ''3.23'' [''hasValue'' \<mapsto> True]"

text \<open>
  The bucket is the closure \<open>() => definition.compute.call(null, args.positional,
  args.named)\<close>: it holds the two variables it captures, by reference.
\<close>

record thunk =
  captured_definition :: jsval
  captured_args :: jsval

definition SimpleClassicHelperManager_createHelper :: "jsval \<Rightarrow> jsval \<Rightarrow> world \<Rightarrow> thunk \<times> world" where
  "SimpleClassicHelperManager_createHelper definition args0 w =
     (\<lparr> captured_definition = definition, captured_args = args0 \<rparr>, w)"

text \<open>
  Running the body of the closure: \<open>definition.compute\<close> is read, then its property
  \<open>call\<close> (a \<open>TypeError\<close> when \<open>definition.compute\<close> is \<open>null\<close> or \<open>undefined\<close>), then
  the two arguments; what \<open>call\<close> holds is called with \<open>definition.compute\<close> as the
  receiver and \<open>null\<close>, \<open>args.positional\<close>, \<open>args.named\<close> as the arguments.
\<close>

definition apply_thunk :: "code \<Rightarrow> thunk \<Rightarrow> world \<Rightarrow> jsval result" where
  "apply_thunk \<Gamma> fn w =
     (case get_prop w (captured_definition fn) (Name ''compute'') of
        Inl e \<Rightarrow> (Inl e, w)
      | Inr c \<Rightarrow>
          (case get_prop w c (Name ''call'') of
             Inl e \<Rightarrow> (Inl e, w)
           | Inr callv \<Rightarrow>
               (case get_prop w (captured_args fn) (Name ''positional'') of
                  Inl e \<Rightarrow> (Inl e, w)
                | Inr positional \<Rightarrow>
                    (case get_prop w (captured_args fn) (Name ''named'') of
                       Inl e \<Rightarrow> (Inl e, w)
                     | Inr named \<Rightarrow> invoke \<Gamma> callv c [JSNull, positional, named] w))))"

definition SimpleClassicHelperManager_getValue :: "code \<Rightarrow> thunk \<Rightarrow> world \<Rightarrow> jsval result" where
  "SimpleClassicHelperManager_getValue \<Gamma> fn w = apply_thunk \<Gamma> fn w"

definition SimpleClassicHelperManager_getDebugName ::
  "debug_name_utility \<Rightarrow> world \<Rightarrow> jsval \<Rightarrow> string result"
where
  "SimpleClassicHelperManager_getDebugName utility w definition =
     (case get_prop w definition (Name ''compute'') of
        Inl e \<Rightarrow> (Inl e, w)
      | Inr c \<Rightarrow>
          (case utility of
             None \<Rightarrow> (Inl TypeError, w)
           | Some name_of \<Rightarrow> name_of w c))"

section \<open>The two managers as objects\<close>

text \<open>
  Both classes implement the interface \<open>HelperManager\<close>, in which \<open>getDestroyable\<close> is
  an optional member. A manager object is the record of its members; a member the class
  does not define is absent.
\<close>

record 'bucket HelperManager =
  capabilities :: "jserror + HelperCapabilities"
  createHelper_member :: "code \<Rightarrow> jsval \<Rightarrow> jsval \<Rightarrow> world \<Rightarrow> 'bucket result"
  getValue_member :: "code \<Rightarrow> 'bucket \<Rightarrow> world \<Rightarrow> jsval result"
  getDestroyable_member :: "('bucket \<Rightarrow> jsval) option"
  getDebugName_member :: "debug_name_utility \<Rightarrow> world \<Rightarrow> jsval \<Rightarrow> string result"

definition ClassicHelperManager_object ::
  "ClassicHelperManager \<Rightarrow> ClassicHelperStateBucket HelperManager"
where
  "ClassicHelperManager_object this =
     \<lparr> capabilities = ClassicHelperManager_capabilities,
       createHelper_member = (\<lambda>\<Gamma>. createHelper \<Gamma> this),
       getValue_member = getValue,
       getDestroyable_member = Some getDestroyable,
       getDebugName_member = ClassicHelperManager_getDebugName \<rparr>"

text \<open>\<open>SIMPLE_CLASSIC_HELPER_MANAGER\<close> (line 288).\<close>

definition SIMPLE_CLASSIC_HELPER_MANAGER :: "thunk HelperManager" where
  "SIMPLE_CLASSIC_HELPER_MANAGER =
     \<lparr> capabilities = SimpleClassicHelperManager_capabilities,
       createHelper_member =
         (\<lambda>\<Gamma> definition args0 w.
            let (fn, w') = SimpleClassicHelperManager_createHelper definition args0 w
            in (Inr fn, w')),
       getValue_member = SimpleClassicHelperManager_getValue,
       getDestroyable_member = None,
       getDebugName_member = SimpleClassicHelperManager_getDebugName \<rparr>"

text \<open>
  \<open>recompute\<close> called \<open>n\<close> times in a row on one instance, and the world it leaves.
\<close>

definition recompute_times :: "nat \<Rightarrow> jsval \<Rightarrow> world \<Rightarrow> world" where
  "recompute_times n this w = ((\<lambda>w'. snd (Helper_recompute this w')) ^^ n) w"

section \<open>The call-site lifecycle\<close>

text \<open>
  The manager factory registered at line 249 builds a manager for the owner; the
  rendering engine then asks it for a bucket and for the bucket's value.
\<close>

definition render_classic :: "code \<Rightarrow> jsval \<Rightarrow> jsval \<Rightarrow> jsval \<Rightarrow> world \<Rightarrow> jsval result" where
  "render_classic \<Gamma> owner definition args0 w =
     (case ClassicHelperManager_new owner w of
        (Inl e, w0) \<Rightarrow> (Inl e, w0)
      | (Inr manager, w0) \<Rightarrow>
          (case createHelper \<Gamma> manager definition args0 w0 of
             (Inl e, w1) \<Rightarrow> (Inl e, w1)
           | (Inr bucket, w1) \<Rightarrow> getValue \<Gamma> bucket w1))"

definition render_simple :: "code \<Rightarrow> jsval \<Rightarrow> jsval \<Rightarrow> world \<Rightarrow> jsval result" where
  "render_simple \<Gamma> definition args0 w =
     (let (fn, w1) = SimpleClassicHelperManager_createHelper definition args0 w
      in SimpleClassicHelperManager_getValue \<Gamma> fn w1)"

text \<open>
  The expression \<open>instance.compute(args.positional, args.named)\<close>, evaluated directly.
\<close>

definition compute_directly :: "code \<Rightarrow> jsval \<Rightarrow> jsval \<Rightarrow> world \<Rightarrow> jsval result" where
  "compute_directly \<Gamma> inst args0 w =
     (case get_prop w inst (Name ''compute'') of
        Inl e \<Rightarrow> (Inl e, w)
      | Inr f \<Rightarrow>
          (case get_prop w args0 (Name ''positional'') of
             Inl e \<Rightarrow> (Inl e, w)
           | Inr positional \<Rightarrow>
               (case get_prop w args0 (Name ''named'') of
                  Inl e \<Rightarrow> (Inl e, w)
                | Inr named \<Rightarrow> invoke \<Gamma> f inst [positional, named] w)))"

text \<open>
  The specification's words for the shape of a factory manager (it has a \<open>class\<close>
  property) and for what \<open>createHelper\<close> accepts: a non-null object (not a function)
  exposing both a \<open>compute\<close> function and a \<open>destroy\<close> function.
\<close>

definition has_class_property :: "world \<Rightarrow> jsval \<Rightarrow> bool" where
  "has_class_property w v =
     (case v of JSObject a \<Rightarrow> props (heap w a) (Name ''class'') \<noteq> None | _ \<Rightarrow> False)"

definition is_function :: "world \<Rightarrow> jsval \<Rightarrow> bool" where
  "is_function w v = (case v of JSObject a \<Rightarrow> callable (heap w a) \<noteq> None | _ \<Rightarrow> False)"

definition exposes_compute_and_destroy :: "world \<Rightarrow> jsval \<Rightarrow> bool" where
  "exposes_compute_and_destroy w v =
     (case v of
        JSObject a \<Rightarrow>
          callable (heap w a) = None \<and>
          (case props (heap w a) (Name ''compute'') of
             None \<Rightarrow> False | Some c \<Rightarrow> is_function w c) \<and>
          (case props (heap w a) (Name ''destroy'') of
             None \<Rightarrow> False | Some d \<Rightarrow> is_function w d)
      | _ \<Rightarrow> False)"

section \<open>The scenarios of the specification\<close>

text \<open>
  The specification's scenarios need user code. The class-based definition \<open>D\<close> has
  \<open>compute([a, b], {op}) { return op === 'add' ? a + b : a - b }\<close>; its factory \<open>create\<close>
  builds an instance from the prototype and runs \<open>init\<close>, as the object model does; its
  \<open>destroy\<close> is the one of the base class. The classes \<open>E\<close> and \<open>Q\<close> are like \<open>D\<close>,
  but the \<open>compute\<close> of \<open>E\<close> throws and that of \<open>Q\<close> looks at another helper. The
  function-based definition is
  \<open>helper((pos, named) => pos[0] * 2)\<close>. Arithmetic is given on numbers, the only
  operands of the scenarios; on other operands the fixtures return \<open>undefined\<close>.
\<close>

definition scenario_create :: "jsval \<Rightarrow> jsval list \<Rightarrow> world \<Rightarrow> jsval result" where
  "scenario_create this as w =
     (case get_prop w this (Name ''prototype'') of
        Inr (JSObject p) \<Rightarrow>
          (let injected = (case as of JSObject i # _ \<Rightarrow> props (heap w i) OWNER | _ \<Rightarrow> None);
               (a, w1) = alloc \<lparr> props = (props (heap w p))(OWNER := injected),
                                 callable = None \<rparr> w
           in case Helper_init (JSObject a) (case as of [] \<Rightarrow> JSUndefined | x # _ \<Rightarrow> x) w1 of
                (Inl e, w2) \<Rightarrow> (Inl e, w2)
              | (Inr _, w2) \<Rightarrow> (Inr (JSObject a), w2))
      | _ \<Rightarrow> (Inl TypeError, w))"

definition scenario_compute :: "jsval \<Rightarrow> jsval list \<Rightarrow> world \<Rightarrow> jsval result" where
  "scenario_compute this as w =
     (case as of
        [positional, named] \<Rightarrow>
          (case (get_prop w positional (Index 0), get_prop w positional (Index 1),
                 get_prop w named (Name ''op'')) of
             (Inr (JSNumber a), Inr (JSNumber b), Inr op) \<Rightarrow>
               (Inr (JSNumber (if op = JSString ''add'' then a + b else a - b)), w)
           | (Inr _, Inr _, Inr _) \<Rightarrow> (Inr JSUndefined, w)
           | _ \<Rightarrow> (Inl TypeError, w))
      | _ \<Rightarrow> (Inl TypeError, w))"

definition scenario_destroy :: "jsval \<Rightarrow> jsval list \<Rightarrow> world \<Rightarrow> jsval result" where
  "scenario_destroy this as w =
     (case Helper_destroy this w of
        (Inl e, w1) \<Rightarrow> (Inl e, w1)
      | (Inr _, w1) \<Rightarrow> (Inr JSUndefined, w1))"

definition scenario_double :: "jsval \<Rightarrow> jsval list \<Rightarrow> world \<Rightarrow> jsval result" where
  "scenario_double this as w =
     (case as of
        [pos, named] \<Rightarrow>
          (case get_prop w pos (Index 0) of
             Inr (JSNumber a) \<Rightarrow> (Inr (JSNumber (a * 2)), w)
           | Inr _ \<Rightarrow> (Inr JSUndefined, w)
           | Inl e \<Rightarrow> (Inl e, w))
      | _ \<Rightarrow> (Inl TypeError, w))"

text \<open>
  A factory that returns an object without \<open>destroy\<close> (the one at address 16), and the
  \<open>create\<close> of a factory manager, which calls the \<open>create\<close> of its class without
  arguments.
\<close>

definition scenario_broken_create :: "jsval \<Rightarrow> jsval list \<Rightarrow> world \<Rightarrow> jsval result" where
  "scenario_broken_create this as w = (Inr (JSObject 16), w)"

definition scenario_manager_create :: "jsval \<Rightarrow> jsval list \<Rightarrow> world \<Rightarrow> jsval result" where
  "scenario_manager_create this as w =
     (case get_prop w this (Name ''class'') of
        Inl e \<Rightarrow> (Inl e, w)
      | Inr c \<Rightarrow> scenario_create c [] w)"

text \<open>The \<open>compute\<close> of the class \<open>E\<close>: \<open>compute() { throw 'boom' }\<close>.\<close>

definition scenario_throwing_compute :: "jsval \<Rightarrow> jsval list \<Rightarrow> world \<Rightarrow> jsval result" where
  "scenario_throwing_compute this as w = (Inl (Thrown (JSString ''boom'')), w)"

text \<open>
  The \<open>compute\<close> of the class \<open>Q\<close>: \<open>compute() { return other.isDestroyed === true }\<close>,
  where \<open>other\<close> is the helper instance at address 32 (the first one the scenarios
  create).
\<close>

definition scenario_peeking_compute :: "jsval \<Rightarrow> jsval list \<Rightarrow> world \<Rightarrow> jsval result" where
  "scenario_peeking_compute this as w =
     (Inr (JSBoolean (props (heap w 32) (Name ''isDestroyed'') = Some (JSBoolean True))), w)"

definition scenario_code :: code where
  "scenario_code i =
     (if i = 0 then scenario_create
      else if i = 1 then scenario_compute
      else if i = 2 then scenario_destroy
      else if i = 3 then scenario_double
      else if i = 5 then scenario_broken_create
      else if i = 6 then scenario_manager_create
      else if i = 7 then scenario_throwing_compute
      else if i = 8 then scenario_peeking_compute
      else (\<lambda>this as w. (Inr JSUndefined, w)))"

text \<open>
  An ordinary function of the scenarios: its \<open>call\<close> is \<open>Function.prototype.call\<close>, which
  is at address 26.
\<close>

definition function_object :: "callee \<Rightarrow> jsobj" where
  "function_object c = \<lparr> props = [Name ''call'' \<mapsto> JSObject 26], callable = Some c \<rparr>"

definition plain_object :: "(key \<rightharpoonup> jsval) \<Rightarrow> jsobj" where
  "plain_object m = \<lparr> props = m, callable = None \<rparr>"

text \<open>
  The store of the scenarios. Addresses 0 to 4 hold the class \<open>D\<close> (at 4) with its
  methods and prototype; 5 to 9 the arguments \<open>[2, 3]\<close> with \<open>{op: 'add'}\<close> (the
  arguments object at 7) and with \<open>{op: 'sub'}\<close> (at 9); 10 and 11 the doubling function
  and the method \<open>create\<close> of wrappers; 12 to 14 the arguments \<open>[21]\<close> (the arguments
  object at 14); 15 the owner; 16 is an object with \<open>compute\<close> but no \<open>destroy\<close> and 17 a
  definition whose factory (at 18) returns it; 19 is a factory manager for \<open>D\<close>, with its
  \<open>create\<close> at 20; 21 and 22 are the methods \<open>init\<close> and \<open>recompute\<close> of \<open>Helper\<close>;
  23 to 25 hold the class \<open>E\<close> (at 25), whose \<open>compute\<close> throws; 26 is
  \<open>Function.prototype.call\<close>; 27 to 29 hold the class \<open>Q\<close> (at 29), whose \<open>compute\<close>
  looks at another helper; 30 is the doubling function again, but with a property
  \<open>call\<close> of its own, the throwing function at 23.
\<close>

definition scenario_heap :: "addr \<Rightarrow> jsobj" where
  "scenario_heap =
     (\<lambda>_. empty_object)
     (0 := function_object (UserFn 1),
      1 := function_object (UserFn 2),
      2 := function_object (UserFn 0),
      3 := plain_object [Name ''compute'' \<mapsto> JSObject 0, Name ''destroy'' \<mapsto> JSObject 1,
                         Name ''init'' \<mapsto> JSObject 21, Name ''recompute'' \<mapsto> JSObject 22],
      4 := \<lparr> props = [Name ''create'' \<mapsto> JSObject 2, Name ''prototype'' \<mapsto> JSObject 3,
                        Name ''isHelperFactory'' \<mapsto> JSBoolean True,
                        Name ''call'' \<mapsto> JSObject 26],
              callable = Some (UserFn 4) \<rparr>,
      5 := plain_object [Index 0 \<mapsto> JSNumber 2, Index 1 \<mapsto> JSNumber 3,
                         Name ''length'' \<mapsto> JSNumber 2],
      6 := plain_object [Name ''op'' \<mapsto> JSString ''add''],
      7 := plain_object [Name ''positional'' \<mapsto> JSObject 5, Name ''named'' \<mapsto> JSObject 6],
      8 := plain_object [Name ''op'' \<mapsto> JSString ''sub''],
      9 := plain_object [Name ''positional'' \<mapsto> JSObject 5, Name ''named'' \<mapsto> JSObject 8],
      10 := function_object (UserFn 3),
      11 := function_object Wrapper_create_method,
      12 := plain_object [Index 0 \<mapsto> JSNumber 21, Name ''length'' \<mapsto> JSNumber 1],
      13 := plain_object Map.empty,
      14 := plain_object [Name ''positional'' \<mapsto> JSObject 12, Name ''named'' \<mapsto> JSObject 13],
      15 := plain_object Map.empty,
      16 := plain_object [Name ''compute'' \<mapsto> JSObject 0],
      17 := plain_object [Name ''create'' \<mapsto> JSObject 18, Name ''class'' \<mapsto> JSObject 4],
      18 := function_object (UserFn 5),
      19 := plain_object [Name ''class'' \<mapsto> JSObject 4, Name ''create'' \<mapsto> JSObject 20],
      20 := function_object (UserFn 6),
      21 := function_object Helper_init_method,
      22 := function_object Helper_recompute_method,
      23 := function_object (UserFn 7),
      24 := plain_object [Name ''compute'' \<mapsto> JSObject 23, Name ''destroy'' \<mapsto> JSObject 1,
                          Name ''init'' \<mapsto> JSObject 21, Name ''recompute'' \<mapsto> JSObject 22],
      25 := \<lparr> props = [Name ''create'' \<mapsto> JSObject 2, Name ''prototype'' \<mapsto> JSObject 24,
                         Name ''isHelperFactory'' \<mapsto> JSBoolean True,
                         Name ''call'' \<mapsto> JSObject 26],
               callable = Some (UserFn 4) \<rparr>,
      26 := function_object Function_call_method,
      27 := function_object (UserFn 8),
      28 := plain_object [Name ''compute'' \<mapsto> JSObject 27, Name ''destroy'' \<mapsto> JSObject 1,
                          Name ''init'' \<mapsto> JSObject 21, Name ''recompute'' \<mapsto> JSObject 22],
      29 := \<lparr> props = [Name ''create'' \<mapsto> JSObject 2, Name ''prototype'' \<mapsto> JSObject 28,
                         Name ''isHelperFactory'' \<mapsto> JSBoolean True,
                         Name ''call'' \<mapsto> JSObject 26],
               callable = Some (UserFn 4) \<rparr>,
      30 := \<lparr> props = [Name ''call'' \<mapsto> JSObject 23], callable = Some (UserFn 3) \<rparr>)"

definition scenario_world :: world where
  "scenario_world =
     \<lparr> heap = scenario_heap, next_addr = 31, revision = 1, queue = [], trace = [] \<rparr>"

text \<open>The world once \<open>helper\<close> has wrapped the doubling function (the wrapper is at 31).\<close>

definition scenario_wrapper_world :: world where
  "scenario_wrapper_world = snd (helper 11 (JSObject 10) scenario_world)"


text \<open>
  Two naming utilities for the scenarios: one that names every value, and one that throws
  (as a utility does that calls a \<open>toString\<close> which throws).
\<close>

definition scenario_debugName :: "world \<Rightarrow> jsval \<Rightarrow> string result" where
  "scenario_debugName w v =
     (Inr (case v of
             JSObject a \<Rightarrow> (if callable (heap w a) = None then ''(unknown object)''
                            else ''(unknown function)'')
           | JSUndefined \<Rightarrow> ''undefined''
           | JSNull \<Rightarrow> ''null''
           | _ \<Rightarrow> ''primitive''), w)"

definition scenario_throwing_debugName :: "world \<Rightarrow> jsval \<Rightarrow> string result" where
  "scenario_throwing_debugName w v = (Inl (Thrown (JSString ''toString failed'')), w)"

text \<open>The manager the factory of line 249 builds for the owner at 15, and the world then.\<close>

definition scenario_manager :: ClassicHelperManager where
  "scenario_manager = \<lparr> ownerInjection = JSObject 31 \<rparr>"

definition scenario_world0 :: world where
  "scenario_world0 = snd (ClassicHelperManager_new (JSObject 15) scenario_world)"

text \<open>
  The world once \<open>createHelper\<close> has built an instance of \<open>D\<close> (at 32, its tag at 33),
  and the bucket for the arguments at 7.
\<close>

definition scenario_world1 :: world where
  "scenario_world1 =
     snd (createHelper scenario_code scenario_manager (JSObject 4) (JSObject 7) scenario_world0)"

definition scenario_bucket :: ClassicHelperStateBucket where
  "scenario_bucket = \<lparr> bucket_instance = JSObject 32, bucket_args = JSObject 7 \<rparr>"





text \<open>The world once \<open>createHelper\<close> has built an instance of \<open>E\<close> (at 32, its tag at 33).\<close>

definition scenario_throwing_world :: world where
  "scenario_throwing_world =
     snd (createHelper scenario_code scenario_manager (JSObject 25) (JSObject 7) scenario_world0)"

text \<open>
  The world once \<open>helper\<close> has wrapped the function at 30, which shadows \<open>call\<close> (the
  wrapper is at 31).
\<close>

definition scenario_shadowed_world :: world where
  "scenario_shadowed_world = snd (helper 11 (JSObject 30) scenario_world)"

text \<open>
  The world with two helpers of the class \<open>D\<close>: the second call site has the arguments
  at 9 and its instance is at 34 (its tag at 35). Then the world once the first instance
  has been destroyed.
\<close>

definition scenario_world2 :: world where
  "scenario_world2 =
     snd (createHelper scenario_code scenario_manager (JSObject 4) (JSObject 9) scenario_world1)"

definition scenario_world3 :: world where
  "scenario_world3 =
     snd (call_method scenario_code (JSObject 32) (Name ''destroy'') [] scenario_world2)"

text \<open>
  The world with a helper of the class \<open>D\<close> (at 32) and one of the class \<open>Q\<close> (at 34, its
  tag at 35), and the world once the first has been destroyed.
\<close>

definition scenario_peeking_world :: world where
  "scenario_peeking_world =
     snd (createHelper scenario_code scenario_manager (JSObject 29) (JSObject 7) scenario_world1)"

definition scenario_destroyed_world :: world where
  "scenario_destroyed_world =
     snd (call_method scenario_code (JSObject 32) (Name ''destroy'') [] scenario_peeking_world)"

text \<open>The tags consumed so far, in order.\<close>

definition consumed_tags :: "world \<Rightarrow> jsval list" where
  "consumed_tags w = concat (map (\<lambda>e. case e of Consumed t \<Rightarrow> [t] | Dirtied _ \<Rightarrow> []) (trace w))"

section \<open>Basic facts\<close>

lemma invoke_primitive:
  "invoke \<Gamma> JSUndefined this args w = (Inl TypeError, w)"
  "invoke \<Gamma> JSNull this args w = (Inl TypeError, w)"
  "invoke \<Gamma> (JSBoolean b) this args w = (Inl TypeError, w)"
  "invoke \<Gamma> (JSNumber n) this args w = (Inl TypeError, w)"
  "invoke \<Gamma> (JSString x) this args w = (Inl TypeError, w)"
  by (simp_all add: invoke.simps)

lemma invoke_object:
  "invoke \<Gamma> (JSObject a) this args w =
     (case callable (heap w a) of
        None \<Rightarrow> (Inl TypeError, w)
      | Some (UserFn i) \<Rightarrow> \<Gamma> i this args w
      | Some Helper_init_method \<Rightarrow>
          (case Helper_init this (case args of [] \<Rightarrow> JSUndefined | p # _ \<Rightarrow> p) w of
             (Inl e, w') \<Rightarrow> (Inl e, w')
           | (Inr _, w') \<Rightarrow> (Inr JSUndefined, w'))
      | Some Helper_recompute_method \<Rightarrow>
          (case Helper_recompute this w of
             (Inl e, w') \<Rightarrow> (Inl e, w')
           | (Inr _, w') \<Rightarrow> (Inr JSUndefined, w'))
      | Some Wrapper_create_method \<Rightarrow> Wrapper_create this w
      | Some Function_call_method \<Rightarrow>
          (case this of
             JSObject _ \<Rightarrow>
               invoke \<Gamma> this (case args of [] \<Rightarrow> JSUndefined | t # _ \<Rightarrow> t) (tl args) w
           | _ \<Rightarrow> (Inl TypeError, w)))"
  by (subst invoke.simps) simp

lemmas scenario_defs =
  scenario_code_def scenario_create_def scenario_compute_def scenario_destroy_def
  scenario_double_def scenario_broken_create_def scenario_manager_create_def
  scenario_throwing_compute_def scenario_peeking_compute_def
  scenario_world_def scenario_heap_def scenario_manager_def scenario_world0_def
  scenario_world1_def scenario_bucket_def scenario_world2_def scenario_world3_def
  scenario_peeking_world_def scenario_destroyed_world_def
  function_object_def plain_object_def empty_object_def

lemmas model_defs =
  render_classic_def ClassicHelperManager_new_def createHelper_def getValue_def
  alloc_def setOwner_def set_prop_def get_prop_def has_prop_def isFactoryManager_def
  isHelperInstance_def typeof_def call_method_def invoke_object invoke_primitive Helper_init_def
  createTag_def assert_def truthy_def consumeTag_def Helper_destroy_def

lemma get_prop_Inl:
  "get_prop w v k = Inl e \<longleftrightarrow> (v = JSNull \<or> v = JSUndefined) \<and> e = TypeError"
  by (auto simp: get_prop_def split: jsval.splits)

lemma get_prop_defined: "get_prop w v k = Inr x \<Longrightarrow> get_prop w' v k' \<noteq> Inl e"
  by (auto simp: get_prop_def split: jsval.splits)

lemma isHelperInstance_eq: "isHelperInstance w v = Inr (exposes_compute_and_destroy w v)"
  by (auto simp: isHelperInstance_def exposes_compute_and_destroy_def typeof_def get_prop_def
      is_function_def split: jsval.splits option.splits)

lemma getValue_outcome:
  "fst (getValue \<Gamma> bucket w) =
   fst (compute_directly \<Gamma> (bucket_instance bucket) (bucket_args bucket) w)"
  by (auto simp: getValue_def compute_directly_def call_method_def get_prop_Inl
      dest: get_prop_defined split: sum.splits prod.splits)

lemma scenario_manager_new:
  "ClassicHelperManager_new (JSObject 15) scenario_world = (Inr scenario_manager, scenario_world0)"
  by (simp add: model_defs scenario_defs)

lemma scenario_createHelper:
  "createHelper scenario_code scenario_manager (JSObject 4) a scenario_world0 =
   (Inr \<lparr> bucket_instance = JSObject 32, bucket_args = a \<rparr>, scenario_world1)"
  by (simp add: model_defs scenario_defs)

lemma manager_new_eq:
  "ClassicHelperManager_new owner w0 =
     (Inr \<lparr> ownerInjection = JSObject (next_addr w0) \<rparr>,
      w0\<lparr> heap := (heap w0)(next_addr w0 := \<lparr> props = [OWNER \<mapsto> owner], callable = None \<rparr>),
          next_addr := Suc (next_addr w0) \<rparr>)"
  by (simp add: ClassicHelperManager_new_def alloc_def setOwner_def set_prop_def empty_object_def)

lemma isFactoryManager_object:
  "isFactoryManager w (JSObject a) = Inr (props (heap w a) (Name ''class'') \<noteq> None)"
  by (simp add: isFactoryManager_def has_prop_def)

lemma createHelper_eq:
  "createHelper \<Gamma> this d args0 w =
     (case call_method \<Gamma> d (Name ''create'')
             (if has_class_property w d then [] else [ownerInjection this]) w of
        (Inl e, w1) \<Rightarrow> (Inl e, w1)
      | (Inr inst, w1) \<Rightarrow>
          (if exposes_compute_and_destroy w1 inst
           then (Inr \<lparr> bucket_instance = inst, bucket_args = args0 \<rparr>, w1)
           else (Inl (AssertionError ''expected HelperInstance''), w1)))"
proof (cases d)
  case (JSObject a)
  then show ?thesis
    by (auto simp: createHelper_def isFactoryManager_object isHelperInstance_eq assert_def
        has_class_property_def split: sum.splits prod.splits)
qed (simp_all add: createHelper_def isFactoryManager_def has_prop_def has_class_property_def
    call_method_def get_prop_def invoke_primitive)

lemma helper_eq:
  "helper cm fnv w =
     (JSObject (next_addr w),
      w\<lparr> heap := (heap w)(next_addr w :=
             \<lparr> props = [Name ''isHelperFactory'' \<mapsto> JSBoolean True, Name ''compute'' \<mapsto> fnv,
                         Name ''create'' \<mapsto> JSObject cm],
               callable = None \<rparr>),
         next_addr := Suc (next_addr w) \<rparr>)"
  by (simp add: helper_def alloc_def)

lemmas simple_defs =
  render_simple_def SimpleClassicHelperManager_createHelper_def
  SimpleClassicHelperManager_getValue_def apply_thunk_def helper_def


lemma recompute_times_eq:
  "recompute_times n this w = w\<lparr> queue := queue w @ replicate n (DirtyRecomputeTagOf this) \<rparr>"
proof (induction n arbitrary: w)
  case 0
  show ?case by (simp add: recompute_times_def)
next
  case (Suc n)
  have "recompute_times (Suc n) this w = recompute_times n this (snd (Helper_recompute this w))"
    by (simp only: recompute_times_def funpow_Suc_right o_apply)
  also have "\<dots> = w\<lparr> queue := queue w @ replicate (Suc n) (DirtyRecomputeTagOf this) \<rparr>"
    by (simp add: Suc Helper_recompute_def join_def replicate_app_Cons_same)
  finally show ?case .
qed

lemma remdups_replicate_same: "remdups (replicate n x) = (if n = 0 then [] else [x])"
  by (induction n) auto

lemma flush_single:
  assumes "props (heap w a) RECOMPUTE_TAG = Some (JSObject t)" and "0 < n"
    and "queue w = replicate n (DirtyRecomputeTagOf (JSObject a))"
  shows "flush w =
     (Inr (),
      w\<lparr> heap := (heap w)(t := (heap w t)\<lparr> props :=
             (props (heap w t))(Name ''revision'' \<mapsto> JSNumber (int (Suc (revision w)))) \<rparr>),
         revision := Suc (revision w),
         queue := [],
         trace := trace w @ [Dirtied t] \<rparr>)"
  using assms
  by (simp add: flush_def remdups_replicate_same run_action_def get_prop_def dirtyTag_def Let_def)







lemma invoke_user:
  "callable (heap w f) = Some (UserFn i) \<Longrightarrow> invoke \<Gamma> (JSObject f) this args w = \<Gamma> i this args w"
  by (simp add: invoke_object)

lemma invoke_builtin_call:
  "callable (heap w k) = Some Function_call_method \<Longrightarrow>
   invoke \<Gamma> (JSObject k) (JSObject f) (t # rest) w = invoke \<Gamma> (JSObject f) t rest w"
  by (subst invoke_object) simp

lemma apply_thunk_eq:
  assumes "get_prop w d (Name ''compute'') = Inr c" and "get_prop w c (Name ''call'') = Inr callv"
    and "get_prop w a (Name ''positional'') = Inr p" and "get_prop w a (Name ''named'') = Inr n"
  shows "apply_thunk \<Gamma> \<lparr> captured_definition = d, captured_args = a \<rparr> w =
           invoke \<Gamma> callv c [JSNull, p, n] w"
  using assms by (simp add: apply_thunk_def)

lemma render_simple_eq:
  assumes "get_prop w d (Name ''compute'') = Inr c" and "get_prop w c (Name ''call'') = Inr callv"
    and "get_prop w a (Name ''positional'') = Inr p" and "get_prop w a (Name ''named'') = Inr n"
  shows "render_simple \<Gamma> d a w = invoke \<Gamma> callv c [JSNull, p, n] w"
  using apply_thunk_eq [OF assms, of \<Gamma>]
  by (simp add: render_simple_def SimpleClassicHelperManager_createHelper_def
      SimpleClassicHelperManager_getValue_def)

lemma render_simple_wrapper:
  assumes "helper cm (JSObject f) w = (d, w1)" and "f < next_addr w"
    and "callable (heap w f) = Some (UserFn i)"
    and "props (heap w f) (Name ''call'') = Some (JSObject k)" and "k < next_addr w"
    and "callable (heap w k) = Some Function_call_method"
    and "get_prop w1 a (Name ''positional'') = Inr p" and "get_prop w1 a (Name ''named'') = Inr n"
  shows "render_simple \<Gamma> d a w1 = \<Gamma> i JSNull [p, n] w1"
proof -
  from assms(1) have d: "d = JSObject (next_addr w)"
    and w1: "w1 = w\<lparr> heap := (heap w)(next_addr w :=
             \<lparr> props = [Name ''isHelperFactory'' \<mapsto> JSBoolean True,
                         Name ''compute'' \<mapsto> JSObject f,
                         Name ''create'' \<mapsto> JSObject cm],
               callable = None \<rparr>),
         next_addr := Suc (next_addr w) \<rparr>"
    by (simp_all add: helper_eq)
  have c: "get_prop w1 d (Name ''compute'') = Inr (JSObject f)"
    by (simp add: d w1 get_prop_def)
  have cv: "get_prop w1 (JSObject f) (Name ''call'') = Inr (JSObject k)"
    using assms(2,4) by (simp add: w1 get_prop_def)
  have k: "callable (heap w1 k) = Some Function_call_method"
    using assms(5,6) by (simp add: w1)
  have f: "callable (heap w1 f) = Some (UserFn i)"
    using assms(2,3) by (simp add: w1)
  have "render_simple \<Gamma> d a w1 = invoke \<Gamma> (JSObject k) (JSObject f) [JSNull, p, n] w1"
    by (rule render_simple_eq [OF c cv assms(7,8)])
  also have "\<dots> = invoke \<Gamma> (JSObject f) JSNull [p, n] w1"
    by (rule invoke_builtin_call [OF k])
  also have "\<dots> = \<Gamma> i JSNull [p, n] w1"
    by (rule invoke_user [OF f])
  finally show ?thesis .
qed



section \<open>The claims\<close>

text \<open>
  C1. For every bucket \<open>{instance, args}\<close> that \<open>createHelper\<close> of the classic manager
  produces, \<open>getValue\<close> has the outcome of \<open>instance.compute(args.positional,
  args.named)\<close> evaluated directly in the same world, whatever the value is
  (\<open>null\<close> and \<open>undefined\<close> included) and also when \<open>compute\<close> throws; the bucket holds
  the arguments it was given. For the definition whose \<open>compute\<close> returns
  \<open>op === 'add' ? a + b : a - b\<close>, with positional \<open>[2, 3]\<close>, the value is 5 for
  \<open>{op: 'add'}\<close> and -1 for \<open>{op: 'sub'}\<close>.
\<close>

theorem getValue_returns_what_compute_returns:
  "(\<forall>\<Gamma> this definition args0 w bucket w1 w'.
      createHelper \<Gamma> this definition args0 w = (Inr bucket, w1) \<longrightarrow>
      bucket_args bucket = args0 \<and>
      fst (getValue \<Gamma> bucket w') =
        fst (compute_directly \<Gamma> (bucket_instance bucket) args0 w')) \<and>
   fst (render_classic scenario_code (JSObject 15) (JSObject 4) (JSObject 7) scenario_world) =
     Inr (JSNumber 5) \<and>
   fst (render_classic scenario_code (JSObject 15) (JSObject 4) (JSObject 9) scenario_world) =
     Inr (JSNumber (- 1))"
proof (intro conjI allI impI)
  fix \<Gamma> this d args0 w bucket w1 w'
  assume made: "createHelper \<Gamma> this d args0 w = (Inr bucket, w1)"
  then show held: "bucket_args bucket = args0"
    by (auto simp: createHelper_def assert_def split: sum.splits prod.splits if_splits)
  show "fst (getValue \<Gamma> bucket w') =
        fst (compute_directly \<Gamma> (bucket_instance bucket) args0 w')"
    using getValue_outcome [of \<Gamma> bucket w'] held by simp
next
  show "fst (render_classic scenario_code (JSObject 15) (JSObject 4) (JSObject 7) scenario_world) =
     Inr (JSNumber 5)"
    by (simp add: model_defs scenario_defs)
next
  show "fst (render_classic scenario_code (JSObject 15) (JSObject 4) (JSObject 9) scenario_world) =
     Inr (JSNumber (- 1))"
    by (simp add: model_defs scenario_defs)
qed

theorem getValue_returns_what_compute_returns_witness:
  "createHelper scenario_code scenario_manager (JSObject 4) (JSObject 7) scenario_world0 =
     (Inr scenario_bucket, scenario_world1) \<and>
   fst (getValue scenario_code scenario_bucket scenario_world1) =
     fst (compute_directly scenario_code (JSObject 32) (JSObject 7) scenario_world1) \<and>
   fst (compute_directly scenario_code (JSObject 32) (JSObject 7) scenario_world1) =
     Inr (JSNumber 5)"
proof -
  have made: "createHelper scenario_code scenario_manager (JSObject 4) (JSObject 7)
                scenario_world0 = (Inr scenario_bucket, scenario_world1)"
    using scenario_createHelper [of "JSObject 7"] by (simp add: scenario_bucket_def)
  from getValue_returns_what_compute_returns made
  have "fst (getValue scenario_code scenario_bucket scenario_world1) =
        fst (compute_directly scenario_code (bucket_instance scenario_bucket) (JSObject 7)
               scenario_world1)"
    by blast
  moreover have "bucket_instance scenario_bucket = JSObject 32"
    by (simp add: scenario_bucket_def)
  moreover have "fst (compute_directly scenario_code (JSObject 32) (JSObject 7) scenario_world1) =
     Inr (JSNumber 5)"
    by (simp add: model_defs scenario_defs compute_directly_def)
  ultimately show ?thesis using made by simp
qed

text \<open>
  C2, as the specification states it, fails when \<open>compute\<close> throws: for a helper of
  the class \<open>E\<close>, whose \<open>compute\<close> throws, \<open>getValue\<close> propagates the exception and
  consumes no tag, though the instance has one.
\<close>

theorem getValue_throwing_compute_counterexample:
  "createHelper scenario_code scenario_manager (JSObject 25) (JSObject 7) scenario_world0 =
     (Inr \<lparr> bucket_instance = JSObject 32, bucket_args = JSObject 7 \<rparr>, scenario_throwing_world) \<and>
   call_method scenario_code (JSObject 32) (Name ''compute'') [JSObject 5, JSObject 6]
     scenario_throwing_world = (Inl (Thrown (JSString ''boom'')), scenario_throwing_world) \<and>
   getValue scenario_code \<lparr> bucket_instance = JSObject 32, bucket_args = JSObject 7 \<rparr>
     scenario_throwing_world = (Inl (Thrown (JSString ''boom'')), scenario_throwing_world) \<and>
   get_prop scenario_throwing_world (JSObject 32) RECOMPUTE_TAG = Inr (JSObject 33) \<and>
   consumed_tags scenario_throwing_world = []"
proof (intro conjI)
  show "createHelper scenario_code scenario_manager (JSObject 25) (JSObject 7) scenario_world0 =
     (Inr \<lparr> bucket_instance = JSObject 32, bucket_args = JSObject 7 \<rparr>, scenario_throwing_world)"
    by (simp add: scenario_throwing_world_def model_defs scenario_defs)
  show "call_method scenario_code (JSObject 32) (Name ''compute'') [JSObject 5, JSObject 6]
     scenario_throwing_world = (Inl (Thrown (JSString ''boom'')), scenario_throwing_world)"
    by (simp add: scenario_throwing_world_def model_defs scenario_defs)
  show "getValue scenario_code \<lparr> bucket_instance = JSObject 32, bucket_args = JSObject 7 \<rparr>
     scenario_throwing_world = (Inl (Thrown (JSString ''boom'')), scenario_throwing_world)"
    by (simp add: scenario_throwing_world_def model_defs scenario_defs)
  show "get_prop scenario_throwing_world (JSObject 32) RECOMPUTE_TAG = Inr (JSObject 33)"
    by (simp add: scenario_throwing_world_def model_defs scenario_defs)
  show "consumed_tags scenario_throwing_world = []"
    by (simp add: scenario_throwing_world_def model_defs scenario_defs consumed_tags_def)
qed

text \<open>
  C2, amended. When \<open>instance.compute\<close> returns normally, \<open>getValue\<close> consumes the
  instance's recompute tag exactly once, in the world \<open>compute\<close> left behind: the
  world after \<open>getValue\<close> is that world with one more event, the consumption of
  \<open>instance[RECOMPUTE_TAG]\<close>, whatever \<open>compute\<close> did to the trace. When \<open>compute\<close>
  throws, \<open>getValue\<close> throws the same error and consumes nothing.
\<close>

theorem getValue_consumes_after_compute_returns:
  assumes "get_prop w (bucket_args bucket) (Name ''positional'') = Inr positional"
    and "get_prop w (bucket_args bucket) (Name ''named'') = Inr named"
    and "call_method \<Gamma> (bucket_instance bucket) (Name ''compute'') [positional, named] w = (r, w1)"
  shows "case r of
           Inr ret \<Rightarrow>
             (\<exists>t. get_prop w1 (bucket_instance bucket) RECOMPUTE_TAG = Inr t \<and>
                  getValue \<Gamma> bucket w = (Inr ret, w1\<lparr> trace := trace w1 @ [Consumed t] \<rparr>) \<and>
                  consumed_tags (snd (getValue \<Gamma> bucket w)) = consumed_tags w1 @ [t])
         | Inl e \<Rightarrow>
             getValue \<Gamma> bucket w = (Inl e, w1) \<and>
             consumed_tags (snd (getValue \<Gamma> bucket w)) = consumed_tags w1"
proof (cases r)
  case (Inl e)
  with assms show ?thesis by (simp add: getValue_def)
next
  case (Inr ret)
  with assms(3) obtain f where "get_prop w (bucket_instance bucket) (Name ''compute'') = Inr f"
    by (auto simp: call_method_def split: sum.splits)
  then obtain t where t: "get_prop w1 (bucket_instance bucket) RECOMPUTE_TAG = Inr t"
    using get_prop_defined [of w "bucket_instance bucket" "Name ''compute''" f w1 RECOMPUTE_TAG]
    by (cases "get_prop w1 (bucket_instance bucket) RECOMPUTE_TAG") auto
  with assms Inr show ?thesis
    by (simp add: getValue_def consumeTag_def consumed_tags_def)
qed

theorem getValue_consumes_after_compute_returns_witness:
  "consumed_tags scenario_world1 = [] \<and>
   getValue scenario_code scenario_bucket scenario_world1 =
     (Inr (JSNumber 5),
      scenario_world1\<lparr> trace := trace scenario_world1 @ [Consumed (JSObject 33)] \<rparr>) \<and>
   consumed_tags (snd (getValue scenario_code scenario_bucket scenario_world1)) = [JSObject 33]"
proof -
  have p: "get_prop scenario_world1 (bucket_args scenario_bucket) (Name ''positional'') =
             Inr (JSObject 5)"
    by (simp add: model_defs scenario_defs)
  have n: "get_prop scenario_world1 (bucket_args scenario_bucket) (Name ''named'') =
             Inr (JSObject 6)"
    by (simp add: model_defs scenario_defs)
  have c: "call_method scenario_code (bucket_instance scenario_bucket) (Name ''compute'')
             [JSObject 5, JSObject 6] scenario_world1 = (Inr (JSNumber 5), scenario_world1)"
    by (simp add: model_defs scenario_defs)
  have t: "get_prop scenario_world1 (bucket_instance scenario_bucket) RECOMPUTE_TAG =
             Inr (JSObject 33)"
    by (simp add: model_defs scenario_defs)
  have e: "consumed_tags scenario_world1 = []"
    by (simp add: model_defs scenario_defs consumed_tags_def)
  from getValue_consumes_after_compute_returns [OF p n c]
  obtain t' where
    "get_prop scenario_world1 (bucket_instance scenario_bucket) RECOMPUTE_TAG = Inr t'"
    "getValue scenario_code scenario_bucket scenario_world1 =
       (Inr (JSNumber 5), scenario_world1\<lparr> trace := trace scenario_world1 @ [Consumed t'] \<rparr>)"
    "consumed_tags (snd (getValue scenario_code scenario_bucket scenario_world1)) =
       consumed_tags scenario_world1 @ [t']"
    by auto
  with t e show ?thesis by simp
qed

text \<open>
  C3. \<open>recompute\<close> does not dirty the tag itself: it hands the closure to \<open>join\<close>,
  which enqueues it, so that after any number of calls only the scheduler's queue has
  changed. When the turn starts with an empty queue and \<open>recompute\<close> is called
  \<open>n \<ge> 1\<close> times on one instance, the flush at the end of the turn dirties the
  instance's tag exactly once: one dirtying is added to the trace and the revision clock
  advances by one.
\<close>

theorem recompute_is_deferred_and_coalesced:
  assumes "props (heap w a) RECOMPUTE_TAG = Some (JSObject t)" and "queue w = []" and "0 < n"
  shows "(\<forall>this w0. Helper_recompute this w0 =
                      (Inr (), w0\<lparr> queue := queue w0 @ [DirtyRecomputeTagOf this] \<rparr>)) \<and>
         recompute_times n (JSObject a) w =
           w\<lparr> queue := replicate n (DirtyRecomputeTagOf (JSObject a)) \<rparr> \<and>
         (\<exists>w'. flush (recompute_times n (JSObject a) w) = (Inr (), w') \<and>
               trace w' = trace w @ [Dirtied t] \<and>
               revision w' = Suc (revision w) \<and>
               props (heap w' t) (Name ''revision'') = Some (JSNumber (int (Suc (revision w)))) \<and>
               queue w' = [])"
proof (intro conjI)
  show "\<forall>this w0. Helper_recompute this w0 =
                    (Inr (), w0\<lparr> queue := queue w0 @ [DirtyRecomputeTagOf this] \<rparr>)"
    by (simp add: Helper_recompute_def join_def)
  show q: "recompute_times n (JSObject a) w =
           w\<lparr> queue := replicate n (DirtyRecomputeTagOf (JSObject a)) \<rparr>"
    using assms(2) by (simp add: recompute_times_eq)
  have "flush (w\<lparr> queue := replicate n (DirtyRecomputeTagOf (JSObject a)) \<rparr>) =
     (Inr (),
      w\<lparr> heap := (heap w)(t := (heap w t)\<lparr> props :=
             (props (heap w t))(Name ''revision'' \<mapsto> JSNumber (int (Suc (revision w)))) \<rparr>),
         revision := Suc (revision w),
         queue := [],
         trace := trace w @ [Dirtied t] \<rparr>)"
    using flush_single [of "w\<lparr> queue := replicate n (DirtyRecomputeTagOf (JSObject a)) \<rparr>" a t n]
      assms(1,3) by simp
  then show "\<exists>w'. flush (recompute_times n (JSObject a) w) = (Inr (), w') \<and>
               trace w' = trace w @ [Dirtied t] \<and>
               revision w' = Suc (revision w) \<and>
               props (heap w' t) (Name ''revision'') = Some (JSNumber (int (Suc (revision w)))) \<and>
               queue w' = []"
    unfolding q by simp
qed

theorem recompute_is_deferred_and_coalesced_witness:
  "props (heap scenario_world1 32) RECOMPUTE_TAG = Some (JSObject 33) \<and>
   queue scenario_world1 = [] \<and> trace scenario_world1 = [] \<and> revision scenario_world1 = 1 \<and>
   recompute_times 3 (JSObject 32) scenario_world1 =
     scenario_world1\<lparr> queue := replicate 3 (DirtyRecomputeTagOf (JSObject 32)) \<rparr> \<and>
   trace (snd (flush (recompute_times 3 (JSObject 32) scenario_world1))) = [Dirtied 33] \<and>
   revision (snd (flush (recompute_times 3 (JSObject 32) scenario_world1))) = 2"
proof -
  have t: "props (heap scenario_world1 32) RECOMPUTE_TAG = Some (JSObject 33)"
    by (simp add: model_defs scenario_defs)
  have q: "queue scenario_world1 = []"
    by (simp add: model_defs scenario_defs)
  have e: "trace scenario_world1 = []"
    by (simp add: model_defs scenario_defs)
  have r: "revision scenario_world1 = 1"
    by (simp add: model_defs scenario_defs)
  have n: "(0::nat) < 3" by simp
  from recompute_is_deferred_and_coalesced [OF t q n] e r
  show ?thesis using t q by auto
qed

text \<open>
  C4. Once the factory of the definition has produced a value, \<open>createHelper\<close> checks
  it: unless it is a non-null object exposing both a \<open>compute\<close> function and a
  \<open>destroy\<close> function, \<open>createHelper\<close> fails with the assertion error
  \<open>expected HelperInstance\<close>; otherwise it returns the bucket holding that object and
  the given arguments.
\<close>

theorem createHelper_validates_instance:
  assumes "isFactoryManager w definition = Inr fm"
    and "call_method \<Gamma> definition (Name ''create'')
           (if fm then [] else [ownerInjection this]) w = (Inr v, w1)"
  shows "createHelper \<Gamma> this definition args0 w =
           (if exposes_compute_and_destroy w1 v
            then (Inr \<lparr> bucket_instance = v, bucket_args = args0 \<rparr>, w1)
            else (Inl (AssertionError ''expected HelperInstance''), w1))"
  using assms by (cases fm) (simp_all add: createHelper_def isHelperInstance_eq assert_def)

theorem createHelper_validates_instance_witness:
  "createHelper scenario_code scenario_manager (JSObject 4) (JSObject 7) scenario_world0 =
     (Inr \<lparr> bucket_instance = JSObject 32, bucket_args = JSObject 7 \<rparr>, scenario_world1) \<and>
   createHelper scenario_code scenario_manager (JSObject 17) (JSObject 7) scenario_world0 =
     (Inl (AssertionError ''expected HelperInstance''), scenario_world0)"
proof
  have f1: "isFactoryManager scenario_world0 (JSObject 4) = Inr False"
    by (simp add: model_defs scenario_defs)
  have c1: "call_method scenario_code (JSObject 4) (Name ''create'')
              (if False then [] else [ownerInjection scenario_manager]) scenario_world0 =
            (Inr (JSObject 32), scenario_world1)"
    by (simp add: model_defs scenario_defs)
  have v1: "exposes_compute_and_destroy scenario_world1 (JSObject 32)"
    by (simp add: model_defs scenario_defs exposes_compute_and_destroy_def is_function_def)
  show "createHelper scenario_code scenario_manager (JSObject 4) (JSObject 7) scenario_world0 =
     (Inr \<lparr> bucket_instance = JSObject 32, bucket_args = JSObject 7 \<rparr>, scenario_world1)"
    using createHelper_validates_instance [OF f1 c1, of "JSObject 7"] v1 by simp
next
  have f2: "isFactoryManager scenario_world0 (JSObject 17) = Inr True"
    by (simp add: model_defs scenario_defs)
  have c2: "call_method scenario_code (JSObject 17) (Name ''create'')
              (if True then [] else [ownerInjection scenario_manager]) scenario_world0 =
            (Inr (JSObject 16), scenario_world0)"
    by (simp add: model_defs scenario_defs)
  have v2: "\<not> exposes_compute_and_destroy scenario_world0 (JSObject 16)"
    by (simp add: model_defs scenario_defs exposes_compute_and_destroy_def is_function_def)
  show "createHelper scenario_code scenario_manager (JSObject 17) (JSObject 7) scenario_world0 =
     (Inl (AssertionError ''expected HelperInstance''), scenario_world0)"
    using createHelper_validates_instance [OF f2 c2, of "JSObject 7"] v2 by simp
qed

text \<open>
  C5, as the specification states it, fails for a function that shadows \<open>call\<close>: the
  thunk evaluates \<open>definition.compute.call(null, ...)\<close>, so for the wrapper of the function
  at 30, whose property \<open>call\<close> is a function that throws, \<open>getValue\<close> throws, while
  the function itself, applied to the same arguments, returns 42.
\<close>

theorem simple_manager_shadowed_call_counterexample:
  "helper 11 (JSObject 30) scenario_world = (JSObject 31, scenario_shadowed_world) \<and>
   get_prop scenario_shadowed_world (JSObject 31) (Name ''compute'') = Inr (JSObject 30) \<and>
   invoke scenario_code (JSObject 30) JSNull [JSObject 12, JSObject 13] scenario_shadowed_world =
     (Inr (JSNumber 42), scenario_shadowed_world) \<and>
   render_simple scenario_code (JSObject 31) (JSObject 14) scenario_shadowed_world =
     (Inl (Thrown (JSString ''boom'')), scenario_shadowed_world)"
proof (intro conjI)
  show "helper 11 (JSObject 30) scenario_world = (JSObject 31, scenario_shadowed_world)"
    by (simp add: scenario_shadowed_world_def helper_def alloc_def scenario_defs)
  show "get_prop scenario_shadowed_world (JSObject 31) (Name ''compute'') = Inr (JSObject 30)"
    by (simp add: scenario_shadowed_world_def simple_defs model_defs scenario_defs)
  show "invoke scenario_code (JSObject 30) JSNull [JSObject 12, JSObject 13]
          scenario_shadowed_world = (Inr (JSNumber 42), scenario_shadowed_world)"
    by (simp add: scenario_shadowed_world_def simple_defs model_defs scenario_defs)
  show "render_simple scenario_code (JSObject 31) (JSObject 14) scenario_shadowed_world =
     (Inl (Thrown (JSString ''boom'')), scenario_shadowed_world)"
    by (simp add: scenario_shadowed_world_def simple_defs model_defs scenario_defs)
qed

text \<open>
  C5, amended. \<open>createHelper\<close> of the functional manager only builds the thunk: the
  world is left as it was, so no instance is created, no environment injected and no tag
  created; \<open>getValue\<close> runs the thunk; the manager has no \<open>getDestroyable\<close>. Creating
  the bucket and asking for its value is evaluating
  \<open>definition.compute.call(null, args.positional, args.named)\<close>, and nothing else. For
  a definition made by \<open>helper(fn)\<close> whose \<open>fn\<close> has the built-in
  \<open>Function.prototype.call\<close> as its \<open>call\<close>, that is calling \<open>fn\<close> with receiver
  \<open>null\<close> on \<open>args.positional\<close> and \<open>args.named\<close>. With
  \<open>helper((pos, named) => pos[0] * 2)\<close> and positional \<open>[21]\<close> the value is 42 and the
  world is unchanged.
\<close>

theorem simple_manager_invokes_function:
  "(\<forall>d a w. snd (SimpleClassicHelperManager_createHelper d a w) = w) \<and>
   (\<forall>\<Gamma> fn w. SimpleClassicHelperManager_getValue \<Gamma> fn w = apply_thunk \<Gamma> fn w) \<and>
   getDestroyable_member SIMPLE_CLASSIC_HELPER_MANAGER = None \<and>
   (\<forall>\<Gamma> d a w c callv p n.
      get_prop w d (Name ''compute'') = Inr c \<and> get_prop w c (Name ''call'') = Inr callv \<and>
      get_prop w a (Name ''positional'') = Inr p \<and> get_prop w a (Name ''named'') = Inr n \<longrightarrow>
      render_simple \<Gamma> d a w = invoke \<Gamma> callv c [JSNull, p, n] w) \<and>
   (\<forall>\<Gamma> cm f i k w d w1 a p n.
      helper cm (JSObject f) w = (d, w1) \<and> f < next_addr w \<and>
      callable (heap w f) = Some (UserFn i) \<and>
      props (heap w f) (Name ''call'') = Some (JSObject k) \<and> k < next_addr w \<and>
      callable (heap w k) = Some Function_call_method \<and>
      get_prop w1 a (Name ''positional'') = Inr p \<and> get_prop w1 a (Name ''named'') = Inr n \<longrightarrow>
      render_simple \<Gamma> d a w1 = \<Gamma> i JSNull [p, n] w1) \<and>
   (case helper 11 (JSObject 10) scenario_world of
      (d, w1) \<Rightarrow> render_simple scenario_code d (JSObject 14) w1 = (Inr (JSNumber 42), w1))"
proof (intro conjI allI impI)
  fix d a w
  show "snd (SimpleClassicHelperManager_createHelper d a w) = w"
    by (simp add: SimpleClassicHelperManager_createHelper_def)
next
  fix \<Gamma> fn w
  show "SimpleClassicHelperManager_getValue \<Gamma> fn w = apply_thunk \<Gamma> fn w"
    by (simp add: SimpleClassicHelperManager_getValue_def)
next
  show "getDestroyable_member SIMPLE_CLASSIC_HELPER_MANAGER = None"
    by (simp add: SIMPLE_CLASSIC_HELPER_MANAGER_def)
next
  fix \<Gamma> d a w c callv p n
  assume "get_prop w d (Name ''compute'') = Inr c \<and> get_prop w c (Name ''call'') = Inr callv \<and>
      get_prop w a (Name ''positional'') = Inr p \<and> get_prop w a (Name ''named'') = Inr n"
  then show "render_simple \<Gamma> d a w = invoke \<Gamma> callv c [JSNull, p, n] w"
    using render_simple_eq [of w d c callv a p n \<Gamma>] by blast
next
  fix \<Gamma> cm f i k w d w1 a p n
  assume "helper cm (JSObject f) w = (d, w1) \<and> f < next_addr w \<and>
      callable (heap w f) = Some (UserFn i) \<and>
      props (heap w f) (Name ''call'') = Some (JSObject k) \<and> k < next_addr w \<and>
      callable (heap w k) = Some Function_call_method \<and>
      get_prop w1 a (Name ''positional'') = Inr p \<and> get_prop w1 a (Name ''named'') = Inr n"
  then show "render_simple \<Gamma> d a w1 = \<Gamma> i JSNull [p, n] w1"
    using render_simple_wrapper [of cm f w d w1 i k a p n \<Gamma>] by blast
next
  show "case helper 11 (JSObject 10) scenario_world of
      (d, w1) \<Rightarrow> render_simple scenario_code d (JSObject 14) w1 = (Inr (JSNumber 42), w1)"
    by (simp add: simple_defs model_defs scenario_defs)
qed

theorem simple_manager_invokes_function_witness:
  "helper 11 (JSObject 10) scenario_world = (JSObject 31, scenario_wrapper_world) \<and>
   callable (heap scenario_world 10) = Some (UserFn 3) \<and>
   props (heap scenario_world 10) (Name ''call'') = Some (JSObject 26) \<and>
   callable (heap scenario_world 26) = Some Function_call_method \<and>
   render_simple scenario_code (JSObject 31) (JSObject 14) scenario_wrapper_world =
     scenario_code 3 JSNull [JSObject 12, JSObject 13] scenario_wrapper_world \<and>
   scenario_code 3 JSNull [JSObject 12, JSObject 13] scenario_wrapper_world =
     (Inr (JSNumber 42), scenario_wrapper_world)"
proof -
  have h: "helper 11 (JSObject 10) scenario_world = (JSObject 31, scenario_wrapper_world)"
    by (simp add: scenario_wrapper_world_def helper_def alloc_def scenario_defs)
  have b: "(10::nat) < next_addr scenario_world" "(26::nat) < next_addr scenario_world"
    by (simp_all add: scenario_defs)
  have c: "callable (heap scenario_world 10) = Some (UserFn 3)"
    by (simp add: scenario_defs)
  have cp: "props (heap scenario_world 10) (Name ''call'') = Some (JSObject 26)"
    by (simp add: scenario_defs)
  have ck: "callable (heap scenario_world 26) = Some Function_call_method"
    by (simp add: scenario_defs)
  have p: "get_prop scenario_wrapper_world (JSObject 14) (Name ''positional'') = Inr (JSObject 12)"
    by (simp add: scenario_wrapper_world_def helper_def alloc_def get_prop_def scenario_defs)
  have n: "get_prop scenario_wrapper_world (JSObject 14) (Name ''named'') = Inr (JSObject 13)"
    by (simp add: scenario_wrapper_world_def helper_def alloc_def get_prop_def scenario_defs)
  from simple_manager_invokes_function h b c cp ck p n
  have r: "render_simple scenario_code (JSObject 31) (JSObject 14) scenario_wrapper_world =
     scenario_code 3 JSNull [JSObject 12, JSObject 13] scenario_wrapper_world"
    by blast
  have v: "scenario_code 3 JSNull [JSObject 12, JSObject 13] scenario_wrapper_world =
     (Inr (JSNumber 42), scenario_wrapper_world)"
    by (simp add: scenario_wrapper_world_def helper_def alloc_def get_prop_def scenario_defs)
  from h c cp ck r v show ?thesis by simp
qed

text \<open>
  C6. The descriptor of the functional manager has \<open>hasValue = true\<close> and
  \<open>hasDestroyable = false\<close> (the flag is not declared), and the manager has no
  \<open>getDestroyable\<close> member; the descriptor of the classic manager declares both
  \<open>hasValue = true\<close> and \<open>hasDestroyable = true\<close>, and the manager has the member.
\<close>

theorem manager_capabilities:
  "SimpleClassicHelperManager_capabilities =
     Inr \<lparr> version = ''3.23'', hasValue = True, hasDestroyable = False \<rparr> \<and>
   capabilities SIMPLE_CLASSIC_HELPER_MANAGER =
     Inr \<lparr> version = ''3.23'', hasValue = True, hasDestroyable = False \<rparr> \<and>
   getDestroyable_member SIMPLE_CLASSIC_HELPER_MANAGER = None \<and>
   ClassicHelperManager_capabilities =
     Inr \<lparr> version = ''3.23'', hasValue = True, hasDestroyable = True \<rparr> \<and>
   capabilities (ClassicHelperManager_object this) =
     Inr \<lparr> version = ''3.23'', hasValue = True, hasDestroyable = True \<rparr> \<and>
   getDestroyable_member (ClassicHelperManager_object this) = Some getDestroyable"
  by (simp add: SimpleClassicHelperManager_capabilities_def ClassicHelperManager_capabilities_def
      SIMPLE_CLASSIC_HELPER_MANAGER_def ClassicHelperManager_object_def helperCapabilities_def
      assert_def)

text \<open>
  C7. The constructor of the classic manager makes a new record and sets the owner on
  it. \<open>createHelper\<close> builds the instance in exactly one of two ways: when the
  definition has a \<open>class\<close> property (a factory manager) it calls
  \<open>definition.create()\<close> without arguments, otherwise it calls
  \<open>definition.create(ownerInjection)\<close> with that record; what \<open>create\<close> returns is
  then validated. (For a definition that is no object both sides are a \<open>TypeError\<close>.)
\<close>

theorem createHelper_constructs_in_one_of_two_ways:
  assumes "ClassicHelperManager_new owner w0 = (r, w)"
  shows "\<exists>inj. r = Inr \<lparr> ownerInjection = JSObject inj \<rparr> \<and>
               props (heap w inj) = [OWNER \<mapsto> owner] \<and>
               (\<forall>\<Gamma> d args0 w'.
                  createHelper \<Gamma> \<lparr> ownerInjection = JSObject inj \<rparr> d args0 w' =
                    (case call_method \<Gamma> d (Name ''create'')
                            (if has_class_property w' d then [] else [JSObject inj]) w' of
                       (Inl e, w1) \<Rightarrow> (Inl e, w1)
                     | (Inr inst, w1) \<Rightarrow>
                         (if exposes_compute_and_destroy w1 inst
                          then (Inr \<lparr> bucket_instance = inst, bucket_args = args0 \<rparr>, w1)
                          else (Inl (AssertionError ''expected HelperInstance''), w1))))"
proof (intro exI conjI allI)
  show "r = Inr \<lparr> ownerInjection = JSObject (next_addr w0) \<rparr>"
    using assms by (simp add: manager_new_eq)
  show "props (heap w (next_addr w0)) = [OWNER \<mapsto> owner]"
    using assms by (auto simp: manager_new_eq)
  fix \<Gamma> d args0 w'
  show "createHelper \<Gamma> \<lparr> ownerInjection = JSObject (next_addr w0) \<rparr> d args0 w' =
          (case call_method \<Gamma> d (Name ''create'')
                  (if has_class_property w' d then [] else [JSObject (next_addr w0)]) w' of
             (Inl e, w1) \<Rightarrow> (Inl e, w1)
           | (Inr inst, w1) \<Rightarrow>
               (if exposes_compute_and_destroy w1 inst
                then (Inr \<lparr> bucket_instance = inst, bucket_args = args0 \<rparr>, w1)
                else (Inl (AssertionError ''expected HelperInstance''), w1)))"
    using createHelper_eq [of \<Gamma> "\<lparr> ownerInjection = JSObject (next_addr w0) \<rparr>" d args0 w']
    by simp
qed

theorem createHelper_constructs_in_one_of_two_ways_witness:
  "ClassicHelperManager_new (JSObject 15) scenario_world = (Inr scenario_manager, scenario_world0) \<and>
   props (heap scenario_world0 31) = [OWNER \<mapsto> JSObject 15] \<and>
   createHelper scenario_code scenario_manager (JSObject 4) (JSObject 7) scenario_world0 =
     (Inr scenario_bucket, scenario_world1) \<and>
   props (heap scenario_world1 32) OWNER = Some (JSObject 15) \<and>
   fst (createHelper scenario_code scenario_manager (JSObject 19) (JSObject 7) scenario_world0) =
     Inr scenario_bucket \<and>
   props (heap (snd (createHelper scenario_code scenario_manager (JSObject 19) (JSObject 7)
                       scenario_world0)) 32) OWNER = None"
proof -
  from createHelper_constructs_in_one_of_two_ways [OF scenario_manager_new]
  obtain inj where
    inj: "Inr scenario_manager = Inr \<lparr> ownerInjection = JSObject inj \<rparr>"
    and own: "props (heap scenario_world0 inj) = [OWNER \<mapsto> JSObject 15]"
    and ways: "\<And>\<Gamma> d args0 w'.
       createHelper \<Gamma> \<lparr> ownerInjection = JSObject inj \<rparr> d args0 w' =
         (case call_method \<Gamma> d (Name ''create'')
                 (if has_class_property w' d then [] else [JSObject inj]) w' of
            (Inl e, w1) \<Rightarrow> (Inl e, w1)
          | (Inr inst, w1) \<Rightarrow>
              (if exposes_compute_and_destroy w1 inst
               then (Inr \<lparr> bucket_instance = inst, bucket_args = args0 \<rparr>, w1)
               else (Inl (AssertionError ''expected HelperInstance''), w1)))"
    by blast
  from inj have inj31: "inj = 31" by (simp add: scenario_manager_def)
  have m: "\<lparr> ownerInjection = JSObject 31 \<rparr> = scenario_manager"
    by (simp add: scenario_manager_def)
  have cls4: "\<not> has_class_property scenario_world0 (JSObject 4)"
    by (simp add: has_class_property_def model_defs scenario_defs)
  have cls19: "has_class_property scenario_world0 (JSObject 19)"
    by (simp add: has_class_property_def model_defs scenario_defs)
  have class_way: "createHelper scenario_code scenario_manager (JSObject 4) (JSObject 7)
          scenario_world0 =
        (case call_method scenario_code (JSObject 4) (Name ''create'') [JSObject 31]
                scenario_world0 of
           (Inl e, w1) \<Rightarrow> (Inl e, w1)
         | (Inr inst, w1) \<Rightarrow>
             (if exposes_compute_and_destroy w1 inst
              then (Inr \<lparr> bucket_instance = inst, bucket_args = JSObject 7 \<rparr>, w1)
              else (Inl (AssertionError ''expected HelperInstance''), w1)))"
    using ways [of scenario_code "JSObject 4" "JSObject 7" scenario_world0] cls4 inj31 m by simp
  have manager_way: "createHelper scenario_code scenario_manager (JSObject 19) (JSObject 7)
          scenario_world0 =
        (case call_method scenario_code (JSObject 19) (Name ''create'') [] scenario_world0 of
           (Inl e, w1) \<Rightarrow> (Inl e, w1)
         | (Inr inst, w1) \<Rightarrow>
             (if exposes_compute_and_destroy w1 inst
              then (Inr \<lparr> bucket_instance = inst, bucket_args = JSObject 7 \<rparr>, w1)
              else (Inl (AssertionError ''expected HelperInstance''), w1)))"
    using ways [of scenario_code "JSObject 19" "JSObject 7" scenario_world0] cls19 inj31 m by simp
  have c4: "call_method scenario_code (JSObject 4) (Name ''create'') [JSObject 31]
              scenario_world0 = (Inr (JSObject 32), scenario_world1)"
    by (simp add: model_defs scenario_defs)
  have o4: "props (heap scenario_world1 32) OWNER = Some (JSObject 15)"
    by (simp add: model_defs scenario_defs)
  have c19: "fst (call_method scenario_code (JSObject 19) (Name ''create'') [] scenario_world0) =
               Inr (JSObject 32)"
    by (simp add: model_defs scenario_defs)
  have v19: "exposes_compute_and_destroy
               (snd (call_method scenario_code (JSObject 19) (Name ''create'') [] scenario_world0))
               (JSObject 32)"
    by (simp add: model_defs scenario_defs exposes_compute_and_destroy_def is_function_def)
  have o19: "props (heap (snd (call_method scenario_code (JSObject 19) (Name ''create'') []
                                 scenario_world0)) 32) OWNER = None"
    by (simp add: model_defs scenario_defs)
  have r19: "createHelper scenario_code scenario_manager (JSObject 19) (JSObject 7)
          scenario_world0 =
          (Inr scenario_bucket,
           snd (call_method scenario_code (JSObject 19) (Name ''create'') [] scenario_world0))"
    unfolding manager_way using c19 v19
    by (cases "call_method scenario_code (JSObject 19) (Name ''create'') [] scenario_world0")
      (simp add: scenario_bucket_def)
  have v4: "exposes_compute_and_destroy scenario_world1 (JSObject 32)"
    by (simp add: model_defs scenario_defs exposes_compute_and_destroy_def is_function_def)
  have r4: "createHelper scenario_code scenario_manager (JSObject 4) (JSObject 7)
          scenario_world0 = (Inr scenario_bucket, scenario_world1)"
    unfolding class_way using c4 v4 by (simp add: scenario_bucket_def)
  show ?thesis
    using scenario_manager_new own inj31 r4 o4 r19 o19 by simp
qed

text \<open>
  C8, as the specification states it, fails for the class \<open>D\<close>, a definition of the
  type the parameter has: when the binding of the utility is \<open>undefined\<close> (the source
  calls it through a non-null assertion) the call is a \<open>TypeError\<close>, and when the
  utility throws, \<open>getDebugName\<close> throws what it throws.
\<close>

theorem getDebugName_throws_counterexample:
  "ClassicHelperManager_getDebugName None scenario_world (JSObject 4) =
     (Inl TypeError, scenario_world) \<and>
   ClassicHelperManager_getDebugName (Some scenario_throwing_debugName) scenario_world
     (JSObject 4) = (Inl (Thrown (JSString ''toString failed'')), scenario_world)"
  by (simp add: ClassicHelperManager_getDebugName_def get_prop_def truthy_def
      scenario_throwing_debugName_def scenario_defs)

text \<open>
  C8, amended. For a definition other than \<open>null\<close> and \<open>undefined\<close> (the type of the
  parameter admits neither), \<open>getDebugName\<close> adds no failure of its own: it reads the
  \<open>prototype\<close> of \<open>definition.class\<close> when that is truthy, and of the definition
  itself otherwise (also when that prototype is absent), and returns what the utility
  returns for it; it throws exactly when the utility is \<open>undefined\<close> or throws.
\<close>

theorem getDebugName_returns_what_the_utility_returns:
  assumes "definition \<noteq> JSNull" and "definition \<noteq> JSUndefined"
  shows "\<exists>c p. get_prop w definition (Name ''class'') = Inr c \<and>
               get_prop w (if truthy c then c else definition) (Name ''prototype'') = Inr p \<and>
               ClassicHelperManager_getDebugName utility w definition =
                 (case utility of
                    None \<Rightarrow> (Inl TypeError, w)
                  | Some name_of \<Rightarrow> name_of w p)"
proof -
  obtain c where c: "get_prop w definition (Name ''class'') = Inr c"
    using assms by (cases "get_prop w definition (Name ''class'')") (auto simp: get_prop_Inl)
  have "(if truthy c then c else definition) \<noteq> JSNull"
    "(if truthy c then c else definition) \<noteq> JSUndefined"
    using assms by (auto simp: truthy_def)
  then obtain p where
    p: "get_prop w (if truthy c then c else definition) (Name ''prototype'') = Inr p"
    by (cases "get_prop w (if truthy c then c else definition) (Name ''prototype'')")
      (auto simp: get_prop_Inl)
  from c p show ?thesis
    by (auto simp: ClassicHelperManager_getDebugName_def)
qed

theorem getDebugName_returns_what_the_utility_returns_witness:
  "ClassicHelperManager_getDebugName (Some scenario_debugName) scenario_world (JSObject 4) =
     scenario_debugName scenario_world (JSObject 3) \<and>
   ClassicHelperManager_getDebugName (Some scenario_debugName) scenario_world (JSObject 19) =
     scenario_debugName scenario_world (JSObject 3) \<and>
   scenario_debugName scenario_world (JSObject 3) = (Inr ''(unknown object)'', scenario_world)"
proof -
  have g: "get_prop scenario_world (JSObject 4) (Name ''class'') = Inr JSUndefined"
    "get_prop scenario_world (JSObject 4) (Name ''prototype'') = Inr (JSObject 3)"
    "get_prop scenario_world (JSObject 19) (Name ''class'') = Inr (JSObject 4)"
    by (simp_all add: get_prop_def scenario_defs)
  have "JSObject 4 \<noteq> JSNull" "JSObject 4 \<noteq> JSUndefined" by simp_all
  from getDebugName_returns_what_the_utility_returns
    [OF this, of scenario_world "Some scenario_debugName"] g
  have d: "ClassicHelperManager_getDebugName (Some scenario_debugName) scenario_world
             (JSObject 4) = scenario_debugName scenario_world (JSObject 3)"
    by (auto simp: truthy_def)
  have "JSObject 19 \<noteq> JSNull" "JSObject 19 \<noteq> JSUndefined" by simp_all
  from getDebugName_returns_what_the_utility_returns
    [OF this, of scenario_world "Some scenario_debugName"] g
  have m: "ClassicHelperManager_getDebugName (Some scenario_debugName) scenario_world
             (JSObject 19) = scenario_debugName scenario_world (JSObject 3)"
    by (auto simp: truthy_def)
  have n: "scenario_debugName scenario_world (JSObject 3) =
             (Inr ''(unknown object)'', scenario_world)"
    by (simp add: scenario_debugName_def scenario_defs)
  from d m n show ?thesis by simp
qed






end
